theory Spec2Isabelle
  imports Complex_Main
begin

section \<open>Python values shared by the two model servers\<close>

text \<open>
  The exceptions the modelled code can raise. Each carries the message or the key that the
  Python exception would carry.
\<close>

datatype py_error = ValueError string | KeyError string | TypeError string

text \<open>A conversation turn: the dict \<^verbatim>\<open>{"role": ..., "content": ...}\<close>.\<close>

record turn =
  role :: string
  content :: string

text \<open>
  Scalar request values. The sampling fields are passed through untouched, so a float is
  carried as the real number it denotes; no arithmetic is done on it.
\<close>

datatype py_val = PNone | PBool bool | PInt int | PFloat real | PStr string

text \<open>
  What \<^verbatim>\<open>str.join\<close> can be handed. A list is iterable; the object returned by calling an
  \<^verbatim>\<open>async def\<close> function that contains \<^verbatim>\<open>yield\<close> is an asynchronous generator, which has
  \<^verbatim>\<open>__aiter__\<close> but no \<^verbatim>\<open>__iter__\<close>.
\<close>

datatype py_obj = ListObj "string list" | AsyncGeneratorObj "string list"

fun join_strs :: "string \<Rightarrow> string list \<Rightarrow> string" where
  "join_strs sep [] = []"
| "join_strs sep [x] = x"
| "join_strs sep (x # y # ys) = x @ sep @ join_strs sep (y # ys)"

definition str_join :: "string \<Rightarrow> py_obj \<Rightarrow> py_error + string" where
  "str_join sep obj =
     (case obj of
        ListObj xs \<Rightarrow> Inr (join_strs sep xs)
      | AsyncGeneratorObj _ \<Rightarrow> Inl (TypeError ''can only join an iterable''))"

text \<open>\<^verbatim>\<open>str(n)\<close> and \<^verbatim>\<open>int(s)\<close> for non-negative decimal numbers.\<close>

definition digit_char :: "nat \<Rightarrow> char" where
  "digit_char d = char_of (48 + d)"

definition digit_val :: "char \<Rightarrow> nat" where
  "digit_val c = of_char c - 48"

function str_nat :: "nat \<Rightarrow> string" where
  "str_nat n = (if n < 10 then [digit_char n] else str_nat (n div 10) @ [digit_char (n mod 10)])"
  by pat_completeness auto
termination
  by (relation "measure (\<lambda>n. n)") auto

declare str_nat.simps [simp del]

definition int_of_str :: "string \<Rightarrow> nat" where
  "int_of_str s = foldl (\<lambda>acc c. acc * 10 + digit_val c) 0 s"

section \<open>The remote server: solar-truss/model/model.py\<close>

definition APPEND_ASSISTANT_TEMPLATE_TO_PROMPT :: bool where
  "APPEND_ASSISTANT_TEMPLATE_TO_PROMPT = True"

definition APPEND_ASSISTANT_TEMPLATE_TO_PROMPT_STR :: string where
  "APPEND_ASSISTANT_TEMPLATE_TO_PROMPT_STR = ''<|im_start|>assistant''"

definition STOP_TOKEN :: string where
  "STOP_TOKEN = ''<|im_end|>''"

text \<open>
  The request dict \<^verbatim>\<open>model_input\<close>. A field is \<open>None\<close> when the key is absent. For the two
  token budgets \<open>None\<close> also stands for a key bound to Python's \<^verbatim>\<open>None\<close>: the code
  tests \<^verbatim>\<open>model_input.get(k) is None\<close>, which does not tell the two apart.
\<close>

record model_input =
  mi_max_tokens :: "int option"
  mi_max_new_tokens :: "int option"
  mi_request_id :: "string option"
  mi_eos_token_id :: "int option option"
  mi_messages :: "turn list option"
  mi_prompt :: "string option"
  mi_stream :: "bool option"

text \<open>The calls made on \<^verbatim>\<open>self.triton_client\<close>, in order.\<close>

datatype backend_call = StartGrpcStream | Infer model_input

text \<open>
  What \<^verbatim>\<open>load\<close> leaves in the \<^verbatim>\<open>Model\<close> object, and the collaborators \<^verbatim>\<open>predict\<close> calls.
  \<open>schema_stream_default\<close> is the default of the \<^verbatim>\<open>stream\<close> parameter of \<^verbatim>\<open>ModelInput\<close>,
  whose declaration (module \<^verbatim>\<open>schema\<close>) is not part of the sources; its constructor is
  taken to keep the values of the keys it is given. \<open>triton_infer\<close> gives the responses
  the engine delivers for a submitted request, and \<open>apply_chat_template\<close> is the
  tokenizer's renderer.
\<close>

record model_env =
  pid :: nat
  eos_token_id :: "int option"
  uses_openai_api :: bool
  apply_chat_template :: "turn list \<Rightarrow> string"
  triton_infer :: "model_input \<Rightarrow> string list"
  schema_stream_default :: bool

text \<open>
  The mutable part: \<^verbatim>\<open>self._request_id_counter\<close> (the value the next \<^verbatim>\<open>next()\<close> returns;
  \<^verbatim>\<open>count(start=1)\<close>) and the log of backend calls.
\<close>

record model_state =
  request_id_counter :: nat
  backend_calls :: "backend_call list"

definition init_state :: model_state where
  "init_state = \<lparr>request_id_counter = 1, backend_calls = []\<rparr>"

text \<open>The inner asynchronous generator: one yield per engine response.\<close>

fun generate :: "string list \<Rightarrow> string list" where
  "generate [] = []"
| "generate (result # rest) =
     (if result \<noteq> STOP_TOKEN then result else '''') # generate rest"

text \<open>Python truthiness of \<^verbatim>\<open>model_input.get("prompt", None)\<close>.\<close>

definition truthy :: "string option \<Rightarrow> bool" where
  "truthy p = (case p of None \<Rightarrow> False | Some s \<Rightarrow> s \<noteq> [])"

datatype predict_result =
    ResultStream "string list"
  | ResultStr string
  | ResultDict "(string \<times> string) list"

text \<open>
  Lines 121 to 138 of \<^verbatim>\<open>predict\<close>: the stream is started, the request submitted, and the
  result handed back according to the \<^verbatim>\<open>stream\<close> flag. \<^verbatim>\<open>generate()\<close> is an
  asynchronous generator object, and that is what \<^verbatim>\<open>"".join\<close> receives.
\<close>

definition dispatch ::
  "model_env \<Rightarrow> model_state \<Rightarrow> model_input \<Rightarrow> (py_error + predict_result) \<times> model_input \<times> model_state"
where
  "dispatch env st model_input =
    (let st1 = st\<lparr>backend_calls := backend_calls st @ [StartGrpcStream]\<rparr>;
         result_iterator = triton_infer env model_input;
         st2 = st1\<lparr>backend_calls := backend_calls st1 @ [Infer model_input]\<rparr>;
         stream = (case mi_stream model_input of None \<Rightarrow> schema_stream_default env | Some b \<Rightarrow> b)
     in if stream
        then (Inr (ResultStream (generate result_iterator)), model_input, st2)
        else if uses_openai_api env
        then (case str_join '''' (AsyncGeneratorObj (generate result_iterator)) of
                Inl e \<Rightarrow> (Inl e, model_input, st2)
              | Inr s \<Rightarrow> (Inr (ResultStr s), model_input, st2))
        else (case str_join '''' (AsyncGeneratorObj (generate result_iterator)) of
                Inl e \<Rightarrow> (Inl e, model_input, st2)
              | Inr s \<Rightarrow> (Inr (ResultDict [(''text'', s)]), model_input, st2)))"

text \<open>
  Lines 118 and 119: \<^verbatim>\<open>model_input['prompt']\<close> is a subscript, so it raises
  \<^verbatim>\<open>KeyError\<close> when the key is absent.
\<close>

definition append_assistant_template :: "model_input \<Rightarrow> py_error + model_input" where
  "append_assistant_template model_input =
    (if APPEND_ASSISTANT_TEMPLATE_TO_PROMPT
     then (case mi_prompt model_input of
             None \<Rightarrow> Inl (KeyError ''prompt'')
           | Some p \<Rightarrow> Inr (model_input\<lparr>mi_prompt := Some (p @ APPEND_ASSISTANT_TEMPLATE_TO_PROMPT_STR)\<rparr>))
     else Inr model_input)"

text \<open>
  \<^verbatim>\<open>predict\<close>, line by line. It returns what the caller gets (or the exception), the
  caller's dict as mutated in place, and the new state.
\<close>

definition predict ::
  "model_env \<Rightarrow> model_state \<Rightarrow> model_input \<Rightarrow> (py_error + predict_result) \<times> model_input \<times> model_state"
where
  "predict env st model_input0 =
    (let model_input1 = (if mi_max_tokens model_input0 = None
                         then model_input0\<lparr>mi_max_tokens := Some 500\<rparr> else model_input0);
         model_input2 = (if mi_max_new_tokens model_input1 = None
                         then model_input1\<lparr>mi_max_new_tokens := Some 500\<rparr> else model_input1);
         st1 = st\<lparr>request_id_counter := Suc (request_id_counter st)\<rparr>;
         model_input3 = model_input2\<lparr>mi_request_id :=
                          Some (str_nat (pid env) @ str_nat (request_id_counter st))\<rparr>;
         model_input4 = model_input3\<lparr>mi_eos_token_id := Some (eos_token_id env)\<rparr>;
         messages = (case mi_messages model_input4 of None \<Rightarrow> [] | Some ms \<Rightarrow> ms);
         model_input5 = model_input4\<lparr>mi_messages := None\<rparr>;
         prompt = mi_prompt model_input5
     in if \<not> truthy prompt \<and> messages = []
        then (Inl (ValueError ''Prompt or messages must be provided''), model_input5, st1)
        else
          let model_input6 = (if uses_openai_api env \<and> \<not> truthy prompt
                              then model_input5\<lparr>mi_prompt := Some (apply_chat_template env messages)\<rparr>
                              else model_input5)
          in case append_assistant_template model_input6 of
               Inl e \<Rightarrow> (Inl e, model_input6, st1)
             | Inr model_input7 \<Rightarrow> dispatch env st1 model_input7)"

text \<open>
  A series of calls on one \<^verbatim>\<open>Model\<close> object: the correlation id each call writes into its
  request dict, in call order.
\<close>

fun assigned_ids :: "model_env \<Rightarrow> model_state \<Rightarrow> model_input list \<Rightarrow> string option list" where
  "assigned_ids env st [] = []"
| "assigned_ids env st (model_input # rest) =
     (case predict env st model_input of
        (res, model_input', st') \<Rightarrow> mi_request_id model_input' # assigned_ids env st' rest)"

text \<open>The prompts of the requests submitted through \<^verbatim>\<open>triton_client.infer\<close>.\<close>

fun submitted_prompts :: "backend_call list \<Rightarrow> string option list" where
  "submitted_prompts [] = []"
| "submitted_prompts (StartGrpcStream # cs) = submitted_prompts cs"
| "submitted_prompts (Infer model_input # cs) = mi_prompt model_input # submitted_prompts cs"

section \<open>The local server: llama/llama-3-70b-chatqa/model/model.py\<close>

definition MAX_LENGTH :: py_val where "MAX_LENGTH = PInt 512"
definition TEMPERATURE :: py_val where "TEMPERATURE = PFloat 1.0"
definition TOP_P :: py_val where "TOP_P = PFloat 0.95"
definition TOP_K :: py_val where "TOP_K = PInt 40"
definition REPETITION_PENALTY :: py_val where "REPETITION_PENALTY = PFloat 1.0"
definition NO_REPEAT_NGRAM_SIZE :: py_val where "NO_REPEAT_NGRAM_SIZE = PInt 0"
definition DO_SAMPLE :: py_val where "DO_SAMPLE = PBool True"
definition DEFAULT_STREAM :: bool where "DEFAULT_STREAM = True"

definition SYSTEM :: string where
  "SYSTEM = ''System: This is a chat between a user and an artificial intelligence assistant. The assistant gives helpful, detailed, and polite answers to the user's questions based on the context. The assistant should also indicate when the answer cannot be found in the context.''"

definition INSTRUCTION :: string where
  "INSTRUCTION = ''Please give a full and complete answer for the question.''"

text \<open>
  The first loop of \<^verbatim>\<open>get_formatted_input\<close>: it rewrites the content of the first item
  whose role is \<^verbatim>\<open>"user"\<close> and breaks.
\<close>

fun apply_instruction :: "turn list \<Rightarrow> turn list" where
  "apply_instruction [] = []"
| "apply_instruction (item # rest) =
     (if role item = ''user''
      then item\<lparr>content := INSTRUCTION @ '' '' @ content item\<rparr> # rest
      else item # apply_instruction rest)"

definition render_turn :: "turn \<Rightarrow> string" where
  "render_turn item =
     (if role item = ''user'' then ''User: '' @ content item else ''Assistant: '' @ content item)"

text \<open>
  The rest of \<^verbatim>\<open>get_formatted_input\<close>: the transcript (the variable
  \<^verbatim>\<open>conversation\<close>) and the final text.
\<close>

definition conversation_text :: "turn list \<Rightarrow> string" where
  "conversation_text messages =
     join_strs ''\<newline>\<newline>'' (map render_turn messages) @ ''\<newline>\<newline>Assistant:''"

definition format_conversation :: "turn list \<Rightarrow> string \<Rightarrow> string" where
  "format_conversation messages context =
     (let conversation = conversation_text messages
      in SYSTEM @ ''\<newline>\<newline>'' @ context @ ''\<newline>\<newline>'' @ conversation)"

text \<open>The result, and the caller's message list as mutated in place.\<close>

definition get_formatted_input :: "turn list \<Rightarrow> string \<Rightarrow> string \<times> turn list" where
  "get_formatted_input messages context =
     (let messages' = apply_instruction messages
      in (format_conversation messages' context, messages'))"

text \<open>Number of positions of \<open>s\<close> at which \<open>p\<close> occurs.\<close>

fun occurrences :: "string \<Rightarrow> string \<Rightarrow> nat" where
  "occurrences p [] = (if p = [] then 1 else 0)"
| "occurrences p (c # cs) =
     (if take (length p) (c # cs) = p then 1 else 0) + occurrences p cs"

record tokenizer =
  tok_eos_token_id :: "int option"
  tok_pad_token_id :: "int option"
  convert_tokens_to_ids :: "string \<Rightarrow> int option"

record generate_args =
  ga_max_length :: py_val
  ga_temperature :: py_val
  ga_top_p :: py_val
  ga_top_k :: py_val
  ga_repetition_penalty :: py_val
  ga_no_repeat_ngram_size :: py_val
  ga_do_sample :: py_val
  ga_use_cache :: bool
  ga_eos_token_id :: "int option list"
  ga_pad_token_id :: "int option"

text \<open>The request dict of the local server; a field is \<open>None\<close> when the key is absent.\<close>

record request =
  rq_messages :: "turn list option"
  rq_context :: "string option"
  rq_max_tokens :: "py_val option"
  rq_temperature :: "py_val option"
  rq_top_p :: "py_val option"
  rq_top_k :: "py_val option"
  rq_repetition_penalty :: "py_val option"
  rq_no_repeat_ngram_size :: "py_val option"
  rq_do_sample :: "py_val option"
  rq_stream :: "bool option"
  rq_formatted_input :: "string option"
  rq_generate_args :: "generate_args option"

text \<open>\<^verbatim>\<open>d.get(key, default)\<close> on one key.\<close>

definition dict_get :: "'a option \<Rightarrow> 'a \<Rightarrow> 'a" where
  "dict_get field dflt = (case field of None \<Rightarrow> dflt | Some v \<Rightarrow> v)"

text \<open>The dict literal \<^verbatim>\<open>generate_args\<close> of \<^verbatim>\<open>preprocess\<close>.\<close>

definition build_generate_args :: "tokenizer \<Rightarrow> request \<Rightarrow> generate_args" where
  "build_generate_args tok request =
    (let terminators = [tok_eos_token_id tok, convert_tokens_to_ids tok ''<|eot_id|>'']
     in \<lparr>ga_max_length = dict_get (rq_max_tokens request) MAX_LENGTH,
         ga_temperature = dict_get (rq_temperature request) TEMPERATURE,
         ga_top_p = dict_get (rq_top_p request) TOP_P,
         ga_top_k = dict_get (rq_top_k request) TOP_K,
         ga_repetition_penalty = dict_get (rq_repetition_penalty request) REPETITION_PENALTY,
         ga_no_repeat_ngram_size = dict_get (rq_no_repeat_ngram_size request) NO_REPEAT_NGRAM_SIZE,
         ga_do_sample = dict_get (rq_do_sample request) DO_SAMPLE,
         ga_use_cache = True,
         ga_eos_token_id = terminators,
         ga_pad_token_id = tok_pad_token_id tok\<rparr>)"

text \<open>
  \<^verbatim>\<open>preprocess\<close>. \<^verbatim>\<open>request.pop(key)\<close> raises \<^verbatim>\<open>KeyError\<close> on an absent key; the two pops
  are evaluated left to right.
\<close>

definition preprocess :: "tokenizer \<Rightarrow> request \<Rightarrow> py_error + request" where
  "preprocess tok request =
    (let generate_args = build_generate_args tok request
     in case rq_messages request of
          None \<Rightarrow> Inl (KeyError ''messages'')
        | Some messages \<Rightarrow>
            (case rq_context request of
               None \<Rightarrow> Inl (KeyError ''context'')
             | Some context \<Rightarrow>
                 Inr (request\<lparr>rq_messages := None, rq_context := None,
                        rq_formatted_input := Some (fst (get_formatted_input messages context)),
                        rq_generate_args := Some generate_args\<rparr>)))"

text \<open>
  What \<^verbatim>\<open>self.model.generate\<close> is called with. Both paths hand it the entries of
  \<^verbatim>\<open>generation_args\<close> (as a \<^verbatim>\<open>GenerationConfig\<close> or as keyword arguments); the other
  keyword arguments are \<open>None\<close> when not passed.
\<close>

record generate_call =
  gc_input_ids :: "int list"
  gc_generation_args :: generate_args
  gc_return_dict_in_generate :: "bool option"
  gc_output_scores :: "bool option"
  gc_max_new_tokens :: "py_val option"
  gc_streamer :: bool

text \<open>The dict \<^verbatim>\<open>generation_kwargs\<close> of \<^verbatim>\<open>stream\<close>.\<close>

definition stream_generation_kwargs :: "int list \<Rightarrow> generate_args \<Rightarrow> generate_call" where
  "stream_generation_kwargs input_ids generation_args =
     \<lparr>gc_input_ids = input_ids,
      gc_generation_args = generation_args,
      gc_return_dict_in_generate = Some True,
      gc_output_scores = Some True,
      gc_max_new_tokens = Some (ga_max_length generation_args),
      gc_streamer = True\<rparr>"

text \<open>The call \<^verbatim>\<open>self.model.generate(input_ids=input_ids, **generation_args)\<close> of \<^verbatim>\<open>predict\<close>.\<close>

definition predict_generation_kwargs :: "int list \<Rightarrow> generate_args \<Rightarrow> generate_call" where
  "predict_generation_kwargs input_ids generation_args =
     \<lparr>gc_input_ids = input_ids,
      gc_generation_args = generation_args,
      gc_return_dict_in_generate = None,
      gc_output_scores = None,
      gc_max_new_tokens = None,
      gc_streamer = False\<rparr>"

text \<open>
  The collaborators of the local server: the tokenizer call and \<^verbatim>\<open>decode\<close> (with the
  \<^verbatim>\<open>skip_special_tokens\<close> flag), the model's \<^verbatim>\<open>generate\<close>, and the texts a
  \<^verbatim>\<open>TextIteratorStreamer\<close> delivers for the ids generated.
\<close>

record local_backend =
  tokenize :: "string \<Rightarrow> int list"
  decode :: "bool \<Rightarrow> int list \<Rightarrow> string"
  model_generate :: "generate_call \<Rightarrow> int list"
  streamer_texts :: "int list \<Rightarrow> string list"

definition chatqa_stream :: "local_backend \<Rightarrow> int list \<Rightarrow> generate_args \<Rightarrow> string list" where
  "chatqa_stream be input_ids generation_args =
     streamer_texts be (model_generate be (stream_generation_kwargs input_ids generation_args))"

datatype chatqa_result = StreamOf "string list" | OutputDict "(string \<times> string) list"

definition chatqa_predict :: "local_backend \<Rightarrow> request \<Rightarrow> py_error + chatqa_result" where
  "chatqa_predict be request =
    (case rq_formatted_input request of
       None \<Rightarrow> Inl (KeyError ''formatted_input'')
     | Some formatted_input \<Rightarrow>
         (let stream = dict_get (rq_stream request) DEFAULT_STREAM
          in case rq_generate_args request of
               None \<Rightarrow> Inl (KeyError ''generate_args'')
             | Some generation_args \<Rightarrow>
                 (let input_ids = tokenize be formatted_input
                  in if stream
                     then Inr (StreamOf (chatqa_stream be input_ids generation_args))
                     else (let outputs = model_generate be (predict_generation_kwargs input_ids generation_args);
                               output_text = decode be True outputs
                           in Inr (OutputDict [(''output'', output_text)])))))"

section \<open>Helper facts about the remote server\<close>

lemma str_join_async_generator:
  "str_join sep (AsyncGeneratorObj xs) = Inl (TypeError ''can only join an iterable'')"
  by (simp add: str_join_def)

lemma dispatch_calls:
  "backend_calls (snd (snd (dispatch env st mi))) = backend_calls st @ [StartGrpcStream, Infer mi]"
  by (simp add: dispatch_def Let_def str_join_async_generator)

lemma dispatch_input: "fst (snd (dispatch env st mi)) = mi"
  by (simp add: dispatch_def Let_def str_join_async_generator)

lemma dispatch_counter:
  "request_id_counter (snd (snd (dispatch env st mi))) = request_id_counter st"
  by (simp add: dispatch_def Let_def str_join_async_generator)

lemma dispatch_result:
  "fst (dispatch env st mi) =
     (if (case mi_stream mi of None \<Rightarrow> schema_stream_default env | Some b \<Rightarrow> b)
      then Inr (ResultStream (generate (triton_infer env mi)))
      else Inl (TypeError ''can only join an iterable''))"
  by (simp add: dispatch_def Let_def str_join_async_generator)

lemma dispatch_not_ValueError: "fst (dispatch env st mi) \<noteq> Inl (ValueError msg)"
  by (simp add: dispatch_result)

lemma dispatch_not_KeyError: "fst (dispatch env st mi) \<noteq> Inl (KeyError k)"
  by (simp add: dispatch_result)

lemma generate_map:
  "generate rs = map (\<lambda>result. if result \<noteq> STOP_TOKEN then result else '''') rs"
  by (induction rs) simp_all

lemma length_generate: "length (generate rs) = length rs"
  by (simp add: generate_map)

lemma generate_nth:
  "i < length rs \<Longrightarrow> generate rs ! i = (if rs ! i = STOP_TOKEN then '''' else rs ! i)"
  by (simp add: generate_map)

lemma generate_drop: "drop n (generate rs) = generate (drop n rs)"
  by (simp add: generate_map drop_map)

lemma STOP_TOKEN_not_in_generate: "STOP_TOKEN \<notin> set (generate rs)"
  by (induction rs) (simp_all add: STOP_TOKEN_def)

text \<open>
  A non-streaming request never gets a value back: whatever passes the earlier checks ends
  in the \<^verbatim>\<open>join\<close> over the asynchronous generator.
\<close>

lemma predict_nonstream_raises:
  "mi_stream mi = Some False \<Longrightarrow> \<exists>e. fst (predict env st mi) = Inl e"
  by (auto simp add: predict_def Let_def append_assistant_template_def dispatch_result
        split: option.splits sum.splits)

subsection \<open>Decimal strings\<close>

lemma digit_val_digit_char: "d < 10 \<Longrightarrow> digit_val (digit_char d) = d"
  by (simp add: digit_val_def digit_char_def)

lemma str_nat_7: "str_nat 7 = ''7''"
  by code_simp

lemma str_nat_1: "str_nat (Suc 0) = ''1''"
  by code_simp

lemma int_of_str_snoc: "int_of_str (s @ [c]) = int_of_str s * 10 + digit_val c"
  by (simp add: int_of_str_def)

lemma int_of_str_append: "int_of_str (a @ b) = int_of_str a * 10 ^ length b + int_of_str b"
proof (induction b rule: rev_induct)
  case Nil
  show ?case by (simp add: int_of_str_def)
next
  case (snoc c b)
  have "int_of_str (a @ b @ [c]) = int_of_str (a @ b) * 10 + digit_val c"
    using int_of_str_snoc [of "a @ b" c] by simp
  also have "\<dots> = (int_of_str a * 10 ^ length b + int_of_str b) * 10 + digit_val c"
    by (simp add: snoc.IH)
  also have "\<dots> = int_of_str a * 10 ^ length (b @ [c]) + int_of_str (b @ [c])"
    by (simp add: int_of_str_snoc algebra_simps)
  finally show ?case .
qed

lemma int_of_str_str_nat: "int_of_str (str_nat n) = n"
proof (induction n rule: str_nat.induct)
  case (1 n)
  show ?case
  proof (cases "n < 10")
    case True
    then show ?thesis
      by (subst str_nat.simps) (simp add: int_of_str_def digit_val_digit_char)
  next
    case False
    then have "int_of_str (str_nat n) =
        int_of_str (str_nat (n div 10)) * 10 + digit_val (digit_char (n mod 10))"
      by (subst str_nat.simps) (simp add: int_of_str_snoc)
    also have "\<dots> = (n div 10) * 10 + n mod 10"
      using False by (simp add: "1.IH" digit_val_digit_char)
    finally show ?thesis by simp
  qed
qed

lemma length_str_nat_mono: "n \<le> m \<Longrightarrow> length (str_nat n) \<le> length (str_nat m)"
proof (induction m arbitrary: n rule: str_nat.induct)
  case (1 m)
  show ?case
  proof (cases "m < 10")
    case True
    with "1.prems" have "n < 10" by simp
    with True show ?thesis
      by (subst str_nat.simps, subst (2) str_nat.simps) simp
  next
    case False
    note big = this
    show ?thesis
    proof (cases "n < 10")
      case True
      with big show ?thesis
        by (subst str_nat.simps, subst (2) str_nat.simps) simp
    next
      case False
      from "1.prems" have "n div 10 \<le> m div 10" by (rule div_le_mono)
      with big have "length (str_nat (n div 10)) \<le> length (str_nat (m div 10))"
        by (intro "1.IH") simp_all
      with big False show ?thesis
        by (subst str_nat.simps, subst (2) str_nat.simps) simp
    qed
  qed
qed

lemma id_value_eq: "int_of_str (str_nat p @ str_nat n) = p * 10 ^ length (str_nat n) + n"
  by (simp add: int_of_str_append int_of_str_str_nat)

lemma id_value_strict_mono:
  assumes "n < m"
  shows "int_of_str (str_nat p @ str_nat n) < int_of_str (str_nat p @ str_nat m)"
proof -
  have "length (str_nat n) \<le> length (str_nat m)"
    using assms by (intro length_str_nat_mono) simp
  then have "(10::nat) ^ length (str_nat n) \<le> 10 ^ length (str_nat m)"
    by (intro power_increasing) simp_all
  then have "p * 10 ^ length (str_nat n) \<le> p * 10 ^ length (str_nat m)"
    by (rule mult_le_mono2)
  with assms have "p * 10 ^ length (str_nat n) + n < p * 10 ^ length (str_nat m) + m"
    by linarith
  then show ?thesis by (simp only: id_value_eq)
qed

lemma sorted_ids:
  "sorted_wrt (<) (map (\<lambda>n. int_of_str (str_nat p @ str_nat n)) [a..<b])"
proof -
  have "sorted_wrt (\<lambda>n m. int_of_str (str_nat p @ str_nat n) < int_of_str (str_nat p @ str_nat m)) [a..<b]"
    by (rule sorted_wrt_mono_rel [where P = "(<)"]) (simp_all add: id_value_strict_mono)
  then show ?thesis by (simp add: sorted_wrt_map)
qed

subsection \<open>The correlation id of one call and of a series of calls\<close>

lemma predict_request_id:
  "mi_request_id (fst (snd (predict env st mi))) =
     Some (str_nat (pid env) @ str_nat (request_id_counter st))"
  by (auto simp add: predict_def Let_def append_assistant_template_def dispatch_input
        split: option.splits sum.splits)

lemma predict_counter:
  "request_id_counter (snd (snd (predict env st mi))) = Suc (request_id_counter st)"
  by (auto simp add: predict_def Let_def dispatch_counter split: sum.splits)

lemma assigned_ids_eq:
  "assigned_ids env st mis =
     map (\<lambda>n. Some (str_nat (pid env) @ str_nat n))
       [request_id_counter st ..< request_id_counter st + length mis]"
proof (induction mis arbitrary: st)
  case Nil
  show ?case by simp
next
  case (Cons mi mis)
  obtain res mi' st' where p: "predict env st mi = (res, mi', st')"
    by (cases "predict env st mi") auto
  have id: "mi_request_id mi' = Some (str_nat (pid env) @ str_nat (request_id_counter st))"
    using predict_request_id [of env st mi] p by simp
  have c: "request_id_counter st' = Suc (request_id_counter st)"
    using predict_counter [of env st mi] p by simp
  have u: "[request_id_counter st ..< request_id_counter st + length (mi # mis)] =
           request_id_counter st # [request_id_counter st' ..< request_id_counter st' + length mis]"
  proof -
    have "request_id_counter st < request_id_counter st + length (mi # mis)" by simp
    then have "[request_id_counter st ..< request_id_counter st + length (mi # mis)] =
          request_id_counter st # [Suc (request_id_counter st) ..< request_id_counter st + length (mi # mis)]"
      by (rule upt_conv_Cons)
    moreover have "request_id_counter st + length (mi # mis) = request_id_counter st' + length mis"
      by (simp add: c)
    ultimately show ?thesis by (simp only: c)
  qed
  have "assigned_ids env st (mi # mis) = mi_request_id mi' # assigned_ids env st' mis"
    by (simp add: p)
  also have "\<dots> = Some (str_nat (pid env) @ str_nat (request_id_counter st)) #
      map (\<lambda>n. Some (str_nat (pid env) @ str_nat n))
        [request_id_counter st' ..< request_id_counter st' + length mis]"
    by (simp only: id Cons.IH)
  also have "\<dots> = map (\<lambda>n. Some (str_nat (pid env) @ str_nat n))
        [request_id_counter st ..< request_id_counter st + length (mi # mis)]"
    by (simp only: u list.map)
  finally show ?case .
qed

section \<open>Helper facts about the local server\<close>

subsection \<open>Counting occurrences\<close>

lemma occurrences_skip:
  "c0 \<notin> set a \<Longrightarrow> occurrences (c0 # p') (a @ s) = occurrences (c0 # p') s"
  by (induction a) auto

lemma take_through_separator:
  assumes "take (length p) (u @ c # s) = p" and "c \<notin> set p"
  shows "take (length p) u = p"
proof (cases "length p \<le> length u")
  case True
  with assms(1) show ?thesis by simp
next
  case False
  then have "take (length p) (u @ c # s) = u @ c # take (length p - Suc (length u)) s"
    by (simp add: take_Cons')
  with assms(1) have "c \<in> set p"
    by (metis in_set_conv_decomp)
  with assms(2) show ?thesis by simp
qed

lemma occurrences_separator:
  "occurrences p a = 0 \<Longrightarrow> c \<notin> set p \<Longrightarrow> p \<noteq> [] \<Longrightarrow>
     occurrences p (a @ c # s) = occurrences p s"
proof (induction a)
  case Nil
  have "take (length p) (c # s) \<noteq> p"
    using take_through_separator [of p "[]" c s] Nil.prems by auto
  then show ?case by simp
next
  case (Cons x a)
  from Cons.prems have no: "take (length p) (x # a) \<noteq> p" and rest: "occurrences p a = 0"
    by (auto split: if_splits)
  have "take (length p) ((x # a) @ c # s) \<noteq> p"
    using take_through_separator [of p "x # a" c s] no Cons.prems(2) by blast
  with rest Cons show ?case by simp
qed

lemma occurrences_self:
  assumes "c0 \<notin> set p'" and "sp \<noteq> c0"
  shows "occurrences (c0 # p') ((c0 # p') @ sp # s) = 1 + occurrences (c0 # p') s"
proof -
  have "occurrences (c0 # p') (p' @ sp # s) = occurrences (c0 # p') (sp # s)"
    using assms(1) by (rule occurrences_skip)
  also have "\<dots> = occurrences (c0 # p') s"
    using assms(2) by simp
  finally show ?thesis by simp
qed

declare occurrences.simps [simp del]

subsection \<open>The instruction text in the transcript\<close>

lemma INSTRUCTION_Cons: "INSTRUCTION = CHR ''P'' # tl INSTRUCTION"
  by (simp add: INSTRUCTION_def)

lemma P_not_in_tl_INSTRUCTION: "CHR ''P'' \<notin> set (tl INSTRUCTION)"
  by (simp add: INSTRUCTION_def)

lemma newline_not_in_INSTRUCTION: "CHR 0x0A \<notin> set INSTRUCTION"
  by (simp add: INSTRUCTION_def)

lemma INSTRUCTION_not_Nil: "INSTRUCTION \<noteq> []"
  by (simp add: INSTRUCTION_def)

lemma P_not_in_SYSTEM: "CHR ''P'' \<notin> set SYSTEM"
  by (simp add: SYSTEM_def)

lemma skip_INSTRUCTION:
  "CHR ''P'' \<notin> set a \<Longrightarrow> occurrences INSTRUCTION (a @ s) = occurrences INSTRUCTION s"
  using occurrences_skip [of "CHR ''P''" a "tl INSTRUCTION" s] INSTRUCTION_Cons by simp

lemma newline_INSTRUCTION:
  "occurrences INSTRUCTION a = 0 \<Longrightarrow>
     occurrences INSTRUCTION (a @ CHR 0x0A # s) = occurrences INSTRUCTION s"
  by (rule occurrences_separator) (simp_all add: newline_not_in_INSTRUCTION INSTRUCTION_not_Nil)

lemma newline_first_INSTRUCTION:
  "occurrences INSTRUCTION (CHR 0x0A # s) = occurrences INSTRUCTION s"
  using newline_INSTRUCTION [of "[]" s] by (simp add: INSTRUCTION_not_Nil occurrences.simps(1))

lemma self_INSTRUCTION:
  "occurrences INSTRUCTION (INSTRUCTION @ CHR '' '' # s) = 1 + occurrences INSTRUCTION s"
  using occurrences_self [of "CHR ''P''" "tl INSTRUCTION" "CHR '' ''" s]
    P_not_in_tl_INSTRUCTION INSTRUCTION_Cons by simp

lemma join_strs_Cons:
  "join_strs sep (x # xs) @ t = x @ (if xs = [] then t else sep @ join_strs sep xs @ t)"
  by (cases xs) simp_all

lemma transcript_clean_step:
  assumes "occurrences INSTRUCTION x = 0"
  shows "occurrences INSTRUCTION (join_strs ''\<newline>\<newline>'' (x # xs) @ CHR 0x0A # t)
       = occurrences INSTRUCTION (join_strs ''\<newline>\<newline>'' xs @ CHR 0x0A # t)"
proof (cases xs)
  case Nil
  then show ?thesis
    using newline_INSTRUCTION [OF assms, of t] by (simp add: newline_first_INSTRUCTION)
next
  case (Cons y ys)
  have "occurrences INSTRUCTION (x @ CHR 0x0A # CHR 0x0A # join_strs ''\<newline>\<newline>'' (y # ys) @ CHR 0x0A # t)
      = occurrences INSTRUCTION (CHR 0x0A # join_strs ''\<newline>\<newline>'' (y # ys) @ CHR 0x0A # t)"
    using assms by (rule newline_INSTRUCTION)
  then show ?thesis
    by (simp add: Cons newline_first_INSTRUCTION)
qed

lemma transcript_clean:
  "\<forall>x\<in>set xs. occurrences INSTRUCTION x = 0 \<Longrightarrow>
     occurrences INSTRUCTION (join_strs ''\<newline>\<newline>'' xs @ CHR 0x0A # t) = occurrences INSTRUCTION t"
proof (induction xs)
  case Nil
  show ?case by (simp add: newline_first_INSTRUCTION)
next
  case (Cons x xs)
  then show ?case by (simp add: transcript_clean_step)
qed

lemma injected_turn:
  assumes "occurrences INSTRUCTION c = 0"
  shows "occurrences INSTRUCTION ((''User: '' @ INSTRUCTION @ '' '' @ c) @ CHR 0x0A # s)
       = 1 + occurrences INSTRUCTION s"
proof -
  have "occurrences INSTRUCTION (''User: '' @ (INSTRUCTION @ CHR '' '' # c @ CHR 0x0A # s))
      = occurrences INSTRUCTION (INSTRUCTION @ CHR '' '' # c @ CHR 0x0A # s)"
    by (rule skip_INSTRUCTION) simp
  also have "\<dots> = 1 + occurrences INSTRUCTION (c @ CHR 0x0A # s)"
    by (rule self_INSTRUCTION)
  also have "\<dots> = 1 + occurrences INSTRUCTION s"
    using assms by (simp add: newline_INSTRUCTION)
  finally show ?thesis by simp
qed

lemma transcript_injected_step:
  assumes "occurrences INSTRUCTION c = 0"
  shows "occurrences INSTRUCTION
           (join_strs ''\<newline>\<newline>'' ((''User: '' @ INSTRUCTION @ '' '' @ c) # xs) @ CHR 0x0A # t)
       = 1 + occurrences INSTRUCTION (join_strs ''\<newline>\<newline>'' xs @ CHR 0x0A # t)"
proof (cases xs)
  case Nil
  then show ?thesis
    using injected_turn [OF assms, of t] by (simp add: newline_first_INSTRUCTION)
next
  case (Cons y ys)
  have "occurrences INSTRUCTION ((''User: '' @ INSTRUCTION @ '' '' @ c) @
          CHR 0x0A # CHR 0x0A # join_strs ''\<newline>\<newline>'' (y # ys) @ CHR 0x0A # t)
      = 1 + occurrences INSTRUCTION (CHR 0x0A # join_strs ''\<newline>\<newline>'' (y # ys) @ CHR 0x0A # t)"
    using assms by (rule injected_turn)
  then show ?thesis
    by (simp add: Cons newline_first_INSTRUCTION)
qed

lemma render_turn_clean:
  assumes "occurrences INSTRUCTION (content m) = 0"
  shows "occurrences INSTRUCTION (render_turn m) = 0"
proof -
  have "occurrences INSTRUCTION (''User: '' @ content m) = occurrences INSTRUCTION (content m)"
    by (rule skip_INSTRUCTION) simp
  moreover have "occurrences INSTRUCTION (''Assistant: '' @ content m) = occurrences INSTRUCTION (content m)"
    by (rule skip_INSTRUCTION) simp
  ultimately show ?thesis
    using assms by (simp add: render_turn_def)
qed

lemma transcript_apply_instruction:
  "\<exists>m\<in>set ms. role m = ''user'' \<Longrightarrow>
   \<forall>m\<in>set ms. occurrences INSTRUCTION (content m) = 0 \<Longrightarrow>
     occurrences INSTRUCTION
       (join_strs ''\<newline>\<newline>'' (map render_turn (apply_instruction ms)) @ CHR 0x0A # t)
     = 1 + occurrences INSTRUCTION t"
proof (induction ms)
  case Nil
  then show ?case by simp
next
  case (Cons m ms)
  show ?case
  proof (cases "role m = ''user''")
    case True
    have c: "occurrences INSTRUCTION (content m) = 0"
      using Cons.prems(2) by simp
    have r: "\<forall>x\<in>set (map render_turn ms). occurrences INSTRUCTION x = 0"
      using Cons.prems(2) by (simp add: render_turn_clean)
    have "render_turn (m\<lparr>content := INSTRUCTION @ '' '' @ content m\<rparr>)
        = ''User: '' @ INSTRUCTION @ '' '' @ content m"
      using True by (simp add: render_turn_def)
    then have "occurrences INSTRUCTION
        (join_strs ''\<newline>\<newline>'' (map render_turn (apply_instruction (m # ms))) @ CHR 0x0A # t)
      = 1 + occurrences INSTRUCTION (join_strs ''\<newline>\<newline>'' (map render_turn ms) @ CHR 0x0A # t)"
      using True transcript_injected_step [OF c, of "map render_turn ms" t] by simp
    also have "\<dots> = 1 + occurrences INSTRUCTION t"
      using transcript_clean [OF r, of t] by simp
    finally show ?thesis .
  next
    case False
    with Cons.prems(1) have u: "\<exists>m\<in>set ms. role m = ''user''" by auto
    have c: "occurrences INSTRUCTION (render_turn m) = 0"
      using Cons.prems(2) by (simp add: render_turn_clean)
    have "occurrences INSTRUCTION
        (join_strs ''\<newline>\<newline>'' (map render_turn (apply_instruction (m # ms))) @ CHR 0x0A # t)
      = occurrences INSTRUCTION
        (join_strs ''\<newline>\<newline>'' (map render_turn (apply_instruction ms)) @ CHR 0x0A # t)"
      using False transcript_clean_step [OF c] by simp
    also have "\<dots> = 1 + occurrences INSTRUCTION t"
      using Cons.IH [OF u] Cons.prems(2) by simp
    finally show ?thesis .
  qed
qed

lemma conversation_text_once:
  assumes "\<exists>m\<in>set ms. role m = ''user''"
      and "\<forall>m\<in>set ms. occurrences INSTRUCTION (content m) = 0"
  shows "occurrences INSTRUCTION (conversation_text (apply_instruction ms)) = 1"
proof -
  have "occurrences INSTRUCTION ''\<newline>Assistant:'' = 0"
    by (simp add: INSTRUCTION_def occurrences.simps)
  then show ?thesis
    using transcript_apply_instruction [OF assms, of "''\<newline>Assistant:''"]
    by (simp add: conversation_text_def)
qed

lemma format_conversation_occurrences:
  assumes "occurrences INSTRUCTION context = 0"
  shows "occurrences INSTRUCTION (format_conversation ms context)
       = occurrences INSTRUCTION (conversation_text ms)"
proof -
  have "occurrences INSTRUCTION (SYSTEM @ ''\<newline>\<newline>'' @ context @ ''\<newline>\<newline>'' @ conversation_text ms)
      = occurrences INSTRUCTION (''\<newline>\<newline>'' @ context @ ''\<newline>\<newline>'' @ conversation_text ms)"
    using P_not_in_SYSTEM by (rule skip_INSTRUCTION)
  also have "\<dots> = occurrences INSTRUCTION (context @ CHR 0x0A # CHR 0x0A # conversation_text ms)"
    by (simp add: newline_first_INSTRUCTION)
  also have "\<dots> = occurrences INSTRUCTION (CHR 0x0A # conversation_text ms)"
    using assms by (rule newline_INSTRUCTION)
  also have "\<dots> = occurrences INSTRUCTION (conversation_text ms)"
    by (rule newline_first_INSTRUCTION)
  finally show ?thesis by (simp add: format_conversation_def)
qed

subsection \<open>Which turn is rewritten\<close>

lemma apply_instruction_update:
  "i < length ms \<Longrightarrow> role (ms ! i) = ''user'' \<Longrightarrow> \<forall>j<i. role (ms ! j) \<noteq> ''user'' \<Longrightarrow>
     apply_instruction ms = ms[i := (ms ! i)\<lparr>content := INSTRUCTION @ '' '' @ content (ms ! i)\<rparr>]"
proof (induction ms arbitrary: i)
  case Nil
  then show ?case by simp
next
  case (Cons m ms)
  show ?case
  proof (cases i)
    case 0
    with Cons.prems show ?thesis by simp
  next
    case (Suc k)
    with Cons.prems have m: "role m \<noteq> ''user''" by auto
    from Suc Cons.prems have "k < length ms" and "role (ms ! k) = ''user''"
      and "\<forall>j<k. role (ms ! j) \<noteq> ''user''" by auto
    then have "apply_instruction ms = ms[k := (ms ! k)\<lparr>content := INSTRUCTION @ '' '' @ content (ms ! k)\<rparr>]"
      by (rule Cons.IH)
    with m Suc show ?thesis by simp
  qed
qed

subsection \<open>The request dict and \<^verbatim>\<open>preprocess\<close>\<close>

lemma dict_get_case: "dict_get field dflt = (case field of Some v \<Rightarrow> v | None \<Rightarrow> dflt)"
  by (simp add: dict_get_def split: option.splits)

lemma preprocess_stores_generate_args:
  "preprocess tok rq = Inr rq' \<Longrightarrow> rq_generate_args rq' = Some (build_generate_args tok rq)"
  unfolding preprocess_def Let_def
  by (cases "rq_messages rq"; cases "rq_context rq") auto

lemma preprocess_returns:
  "rq_messages rq \<noteq> None \<Longrightarrow> rq_context rq \<noteq> None \<Longrightarrow> \<exists>rq'. preprocess tok rq = Inr rq'"
  unfolding preprocess_def Let_def
  by (cases "rq_messages rq"; cases "rq_context rq") auto

section \<open>Claims about the remote server\<close>

text \<open>
  C1 (the code departs from it). The claim: a request with \<^verbatim>\<open>stream=false\<close> drains the
  increments and returns the concatenated string (chat-compatible backend) or the
  \<^verbatim>\<open>{"text": ...}\<close> wrapper (otherwise), without raising. The code hands the asynchronous
  generator object to \<^verbatim>\<open>"".join\<close>, which accepts iterables only: for the request
  \<^verbatim>\<open>{"prompt": "Hello", "stream": False}\<close> on a chat-compatible backend whose engine answers
  \<^verbatim>\<open>["Hi", STOP_TOKEN]\<close>, \<^verbatim>\<open>predict\<close> raises \<^verbatim>\<open>TypeError\<close> after the request was submitted,
  where the claim has it return \<^verbatim>\<open>"Hi"\<close>.
\<close>

theorem predict_nonstream_TypeError:
  "fst (predict
      \<lparr>pid = 7, eos_token_id = Some 2, uses_openai_api = True,
       apply_chat_template = (\<lambda>ms. concat (map content ms)),
       triton_infer = (\<lambda>_. [''Hi'', STOP_TOKEN]), schema_stream_default = True\<rparr>
      init_state
      \<lparr>mi_max_tokens = None, mi_max_new_tokens = None, mi_request_id = None,
       mi_eos_token_id = None, mi_messages = None, mi_prompt = Some ''Hello'',
       mi_stream = Some False\<rparr>)
   = Inl (TypeError ''can only join an iterable'')"
  by (simp add: predict_def Let_def append_assistant_template_def truthy_def dispatch_result
        APPEND_ASSISTANT_TEMPLATE_TO_PROMPT_def)

text \<open>
  C2 (as stated, refuted). The claim: when the sentinel is the response at position \<open>i\<close>,
  the caller sees exactly \<open>i + 1\<close> increments, whatever the engine delivers afterwards.
  The generator has no exit at the sentinel: with responses \<^verbatim>\<open>["a", STOP_TOKEN, "b"]\<close> the
  sentinel is at position 1 and three increments are yielded.
\<close>

theorem generate_not_cut_at_sentinel:
  "[''a'', STOP_TOKEN, ''b''] ! 1 = STOP_TOKEN \<and>
   generate [''a'', STOP_TOKEN, ''b''] = [''a'', '''', ''b''] \<and>
   length (generate [''a'', STOP_TOKEN, ''b'']) \<noteq> 1 + 1"
  by (simp add: STOP_TOKEN_def)

text \<open>
  C2 (amended). When the sentinel is the response at position \<open>i\<close>, the increment at
  position \<open>i\<close> is the empty string, the generator yields as many increments as the
  engine delivers responses, the responses after the sentinel are yielded like any other,
  and so the caller sees exactly \<open>i + 1\<close> increments if and only if the sentinel is the
  engine's last response.
\<close>

theorem generate_length_at_sentinel:
  "i < length rs \<Longrightarrow> rs ! i = STOP_TOKEN \<Longrightarrow>
     generate rs ! i = '''' \<and>
     length (generate rs) = length rs \<and>
     drop (Suc i) (generate rs) = generate (drop (Suc i) rs) \<and>
     (length (generate rs) = Suc i \<longleftrightarrow> length rs = Suc i)"
  by (simp add: generate_nth length_generate generate_drop)

theorem generate_length_at_sentinel_witness:
  "1 < length [''4'', STOP_TOKEN] \<and> [''4'', STOP_TOKEN] ! 1 = STOP_TOKEN \<and>
   generate [''4'', STOP_TOKEN] ! 1 = '''' \<and>
   length (generate [''4'', STOP_TOKEN]) = Suc 1"
proof -
  have h1: "1 < length [''4'', STOP_TOKEN]" by simp
  have h2: "[''4'', STOP_TOKEN] ! 1 = STOP_TOKEN" by simp
  show ?thesis
    using h1 h2 generate_length_at_sentinel [OF h1 h2] by simp
qed

text \<open>
  C3 (as stated, refuted). The claim: for every sequence of engine responses the sentinel
  text never appears in the yielded output. The generator compares each response as a
  whole with the sentinel, so a response that contains the sentinel next to other text is
  yielded as it is, and so are two consecutive responses that spell the sentinel between
  them: the response \<^verbatim>\<open>"x<|im_end|>"\<close> is yielded unchanged, and the responses
  \<^verbatim>\<open>["<|im_", "end|>"]\<close> yield increments whose concatenation is the sentinel.
\<close>

theorem generate_passes_embedded_sentinel:
  "generate [''x<|im_end|>''] = [''x<|im_end|>''] \<and>
   occurrences STOP_TOKEN (concat (generate [''x<|im_end|>''])) = 1 \<and>
   concat (generate [''<|im_'', ''end|>'']) = STOP_TOKEN"
  by (simp add: STOP_TOKEN_def occurrences.simps)

text \<open>
  C3 (amended). For every sequence of engine responses the generator yields one increment
  per response, in arrival order: the empty string for a response equal to the sentinel,
  the response itself otherwise. No yielded increment is equal to the sentinel. The
  responses \<^verbatim>\<open>["4", " is", " the", " answer", STOP_TOKEN]\<close> yield
  \<^verbatim>\<open>["4", " is", " the", " answer", ""]\<close>.
\<close>

theorem generate_increments:
  "generate rs = map (\<lambda>r. if r = STOP_TOKEN then '''' else r) rs \<and>
   length (generate rs) = length rs \<and>
   STOP_TOKEN \<notin> set (generate rs) \<and>
   generate [''4'', '' is'', '' the'', '' answer'', STOP_TOKEN] =
     [''4'', '' is'', '' the'', '' answer'', '''']"
proof -
  have a: "generate rs = map (\<lambda>r. if r = STOP_TOKEN then '''' else r) rs"
    by (induction rs) simp_all
  have b: "length (generate rs) = length rs"
    by (rule length_generate)
  have c: "STOP_TOKEN \<notin> set (generate rs)"
    by (rule STOP_TOKEN_not_in_generate)
  have d: "generate [''4'', '' is'', '' the'', '' answer'', STOP_TOKEN] =
     [''4'', '' is'', '' the'', '' answer'', '''']"
    by (simp add: STOP_TOKEN_def)
  from a b c d show ?thesis by (intro conjI)
qed

theorem generate_increments_witness:
  "generate [''x'', STOP_TOKEN, ''y''] = [''x'', '''', ''y''] \<and>
   STOP_TOKEN \<notin> set (generate [''x'', STOP_TOKEN, ''y''])"
  using generate_increments [of "[''x'', STOP_TOKEN, ''y'']"] by (simp add: STOP_TOKEN_def)

text \<open>
  C5. A request whose prompt is absent or empty and whose message list is absent or empty
  makes \<^verbatim>\<open>predict\<close> raise \<^verbatim>\<open>ValueError("Prompt or messages must be provided")\<close> with the
  log of backend calls unchanged: no stream start, no submission. A request with a
  non-empty prompt or a non-empty message list never gets a \<^verbatim>\<open>ValueError\<close>.
\<close>

theorem predict_invalid_request:
  "(\<not> truthy (mi_prompt mi) \<and> (mi_messages mi = None \<or> mi_messages mi = Some []) \<longrightarrow>
      fst (predict env st mi) = Inl (ValueError ''Prompt or messages must be provided'') \<and>
      backend_calls (snd (snd (predict env st mi))) = backend_calls st) \<and>
   (truthy (mi_prompt mi) \<or> (\<exists>ms. mi_messages mi = Some ms \<and> ms \<noteq> []) \<longrightarrow>
      (\<forall>msg. fst (predict env st mi) \<noteq> Inl (ValueError msg)))"
proof (intro conjI impI)
  assume a: "\<not> truthy (mi_prompt mi) \<and> (mi_messages mi = None \<or> mi_messages mi = Some [])"
  then show "fst (predict env st mi) = Inl (ValueError ''Prompt or messages must be provided'')"
    by (auto simp add: predict_def Let_def)
  from a show "backend_calls (snd (snd (predict env st mi))) = backend_calls st"
    by (auto simp add: predict_def Let_def)
next
  assume a: "truthy (mi_prompt mi) \<or> (\<exists>ms. mi_messages mi = Some ms \<and> ms \<noteq> [])"
  show "\<forall>msg. fst (predict env st mi) \<noteq> Inl (ValueError msg)"
  proof
    fix msg
    from a show "fst (predict env st mi) \<noteq> Inl (ValueError msg)"
      by (auto simp add: predict_def Let_def append_assistant_template_def dispatch_not_ValueError
            split: sum.splits option.splits)
  qed
qed

theorem predict_invalid_request_witness:
  "fst (predict
      \<lparr>pid = 7, eos_token_id = Some 2, uses_openai_api = True,
       apply_chat_template = (\<lambda>ms. concat (map content ms)),
       triton_infer = (\<lambda>_. [''Hi'', STOP_TOKEN]), schema_stream_default = True\<rparr>
      init_state
      \<lparr>mi_max_tokens = None, mi_max_new_tokens = None, mi_request_id = None,
       mi_eos_token_id = None, mi_messages = Some [], mi_prompt = Some '''',
       mi_stream = None\<rparr>)
     = Inl (ValueError ''Prompt or messages must be provided'') \<and>
   fst (predict
      \<lparr>pid = 7, eos_token_id = Some 2, uses_openai_api = True,
       apply_chat_template = (\<lambda>ms. concat (map content ms)),
       triton_infer = (\<lambda>_. [''Hi'', STOP_TOKEN]), schema_stream_default = True\<rparr>
      init_state
      \<lparr>mi_max_tokens = None, mi_max_new_tokens = None, mi_request_id = None,
       mi_eos_token_id = None, mi_messages = None, mi_prompt = Some ''Hello'',
       mi_stream = None\<rparr>)
     \<noteq> Inl (ValueError ''Prompt or messages must be provided'')"
proof -
  let ?env = "\<lparr>pid = 7, eos_token_id = Some 2, uses_openai_api = True,
       apply_chat_template = (\<lambda>ms. concat (map content ms)),
       triton_infer = (\<lambda>_. [''Hi'', STOP_TOKEN]), schema_stream_default = True\<rparr>"
  let ?empty = "\<lparr>mi_max_tokens = None, mi_max_new_tokens = None, mi_request_id = None,
       mi_eos_token_id = None, mi_messages = Some [], mi_prompt = Some '''',
       mi_stream = None\<rparr>"
  let ?given = "\<lparr>mi_max_tokens = None, mi_max_new_tokens = None, mi_request_id = None,
       mi_eos_token_id = None, mi_messages = None, mi_prompt = Some ''Hello'',
       mi_stream = None\<rparr>"
  have e: "\<not> truthy (mi_prompt ?empty) \<and> (mi_messages ?empty = None \<or> mi_messages ?empty = Some [])"
    by (simp add: truthy_def)
  have g: "truthy (mi_prompt ?given) \<or> (\<exists>ms. mi_messages ?given = Some ms \<and> ms \<noteq> [])"
    by (simp add: truthy_def)
  from e predict_invalid_request [of ?empty ?env init_state]
  have "fst (predict ?env init_state ?empty) = Inl (ValueError ''Prompt or messages must be provided'')"
    by blast
  moreover from g predict_invalid_request [of ?given ?env init_state]
  have "fst (predict ?env init_state ?given) \<noteq> Inl (ValueError ''Prompt or messages must be provided'')"
    by blast
  ultimately show ?thesis by blast
qed

text \<open>
  C8. In chat-template mode (chat-compatible backend, prompt absent or empty, non-empty
  messages) the request submitted to the backend carries the chat template's rendering
  of the messages followed by the assistant continuation marker; in raw-prompt mode
  (non-empty prompt) it carries the given prompt followed by the marker. In both modes the
  submitted prompt ends with the marker.
\<close>

theorem predict_prompt_ends_with_marker:
  "(uses_openai_api env \<and> \<not> truthy (mi_prompt mi) \<and> mi_messages mi = Some ms \<and> ms \<noteq> [] \<longrightarrow>
      (\<exists>mi'. backend_calls (snd (snd (predict env st mi))) =
                backend_calls st @ [StartGrpcStream, Infer mi'] \<and>
             mi_prompt mi' = Some (apply_chat_template env ms @ APPEND_ASSISTANT_TEMPLATE_TO_PROMPT_STR))) \<and>
   (mi_prompt mi = Some p \<and> p \<noteq> [] \<longrightarrow>
      (\<exists>mi'. backend_calls (snd (snd (predict env st mi))) =
                backend_calls st @ [StartGrpcStream, Infer mi'] \<and>
             mi_prompt mi' = Some (p @ APPEND_ASSISTANT_TEMPLATE_TO_PROMPT_STR)))"
  by (auto simp add: predict_def Let_def append_assistant_template_def truthy_def dispatch_calls
        APPEND_ASSISTANT_TEMPLATE_TO_PROMPT_def split: option.splits)

theorem predict_prompt_ends_with_marker_witness:
  "submitted_prompts (backend_calls (snd (snd (predict
      \<lparr>pid = 7, eos_token_id = Some 2, uses_openai_api = True,
       apply_chat_template = (\<lambda>ms. concat (map content ms)),
       triton_infer = (\<lambda>_. [''Hi'', STOP_TOKEN]), schema_stream_default = True\<rparr>
      init_state
      \<lparr>mi_max_tokens = None, mi_max_new_tokens = None, mi_request_id = None,
       mi_eos_token_id = None, mi_messages = Some [\<lparr>role = ''user'', content = ''2+2?''\<rparr>],
       mi_prompt = None, mi_stream = None\<rparr>))))
     = [Some ''2+2?<|im_start|>assistant''] \<and>
   submitted_prompts (backend_calls (snd (snd (predict
      \<lparr>pid = 7, eos_token_id = Some 2, uses_openai_api = False,
       apply_chat_template = (\<lambda>ms. concat (map content ms)),
       triton_infer = (\<lambda>_. [''Hi'', STOP_TOKEN]), schema_stream_default = True\<rparr>
      init_state
      \<lparr>mi_max_tokens = None, mi_max_new_tokens = None, mi_request_id = None,
       mi_eos_token_id = None, mi_messages = None,
       mi_prompt = Some ''Hello'', mi_stream = None\<rparr>))))
     = [Some ''Hello<|im_start|>assistant'']"
proof -
  let ?chat = "\<lparr>pid = 7, eos_token_id = Some 2, uses_openai_api = True,
       apply_chat_template = (\<lambda>ms. concat (map content ms)),
       triton_infer = (\<lambda>_. [''Hi'', STOP_TOKEN]), schema_stream_default = True\<rparr>"
  let ?raw = "\<lparr>pid = 7, eos_token_id = Some 2, uses_openai_api = False,
       apply_chat_template = (\<lambda>ms. concat (map content ms)),
       triton_infer = (\<lambda>_. [''Hi'', STOP_TOKEN]), schema_stream_default = True\<rparr>"
  let ?ms = "[\<lparr>role = ''user'', content = ''2+2?''\<rparr>]"
  let ?m = "\<lparr>mi_max_tokens = None, mi_max_new_tokens = None, mi_request_id = None,
       mi_eos_token_id = None, mi_messages = Some ?ms,
       mi_prompt = None, mi_stream = None\<rparr>"
  let ?p = "\<lparr>mi_max_tokens = None, mi_max_new_tokens = None, mi_request_id = None,
       mi_eos_token_id = None, mi_messages = None,
       mi_prompt = Some ''Hello'', mi_stream = None\<rparr>"
  have c: "uses_openai_api ?chat \<and> \<not> truthy (mi_prompt ?m) \<and> mi_messages ?m = Some ?ms \<and> ?ms \<noteq> []"
    by (simp add: truthy_def)
  have r: "mi_prompt ?p = Some ''Hello'' \<and> ''Hello'' \<noteq> []"
    by simp
  from c predict_prompt_ends_with_marker [of ?chat ?m ?ms init_state]
  obtain mi' where "backend_calls (snd (snd (predict ?chat init_state ?m))) =
        backend_calls init_state @ [StartGrpcStream, Infer mi']"
      and "mi_prompt mi' = Some (apply_chat_template ?chat ?ms @ APPEND_ASSISTANT_TEMPLATE_TO_PROMPT_STR)"
    by blast
  then have 1: "submitted_prompts (backend_calls (snd (snd (predict ?chat init_state ?m)))) =
      [Some ''2+2?<|im_start|>assistant'']"
    by (simp add: init_state_def APPEND_ASSISTANT_TEMPLATE_TO_PROMPT_STR_def)
  from r predict_prompt_ends_with_marker [of ?raw ?p _ init_state "''Hello''"]
  obtain mi'' where "backend_calls (snd (snd (predict ?raw init_state ?p))) =
        backend_calls init_state @ [StartGrpcStream, Infer mi'']"
      and "mi_prompt mi'' = Some (''Hello'' @ APPEND_ASSISTANT_TEMPLATE_TO_PROMPT_STR)"
    by blast
  then have 2: "submitted_prompts (backend_calls (snd (snd (predict ?raw init_state ?p)))) =
      [Some ''Hello<|im_start|>assistant'']"
    by (simp add: init_state_def APPEND_ASSISTANT_TEMPLATE_TO_PROMPT_STR_def)
  from 1 2 show ?thesis by blast
qed

text \<open>
  C9. On one \<^verbatim>\<open>Model\<close> object, whatever the requests and whether or not a call goes on to
  raise, the calls are assigned the ids \<^verbatim>\<open>str(pid) + str(n)\<close> for the successive counter
  values \<open>n\<close>. The ids of a series of calls are pairwise distinct and, read as decimal
  numbers, strictly increasing.
\<close>

theorem request_ids_fresh_and_increasing:
  "\<exists>ids. assigned_ids env st mis = map Some ids \<and>
         ids = map (\<lambda>n. str_nat (pid env) @ str_nat n)
                 [request_id_counter st ..< request_id_counter st + length mis] \<and>
         distinct ids \<and>
         sorted_wrt (<) (map int_of_str ids)"
proof -
  let ?ids = "map (\<lambda>n. str_nat (pid env) @ str_nat n)
                 [request_id_counter st ..< request_id_counter st + length mis]"
  have s: "sorted_wrt (<) (map int_of_str ?ids)"
    using sorted_ids [of "pid env"] by (simp add: comp_def)
  then have "distinct (map int_of_str ?ids)"
    by (simp add: strict_sorted_iff)
  then have d: "distinct ?ids"
    using distinct_map [of int_of_str ?ids] by blast
  have "assigned_ids env st mis = map Some ?ids"
    by (simp add: assigned_ids_eq comp_def)
  with d s show ?thesis by blast
qed

text \<open>
  C10 (as stated, refuted). The claim: non-empty messages, a prompt that is absent or
  empty, and a backend that is not chat-compatible end in \<^verbatim>\<open>KeyError\<close>. With the prompt
  key present and bound to the empty string the subscript succeeds: the request below is
  submitted with the bare marker as its prompt and a stream is returned.
\<close>

theorem predict_empty_prompt_no_KeyError:
  "predict
      \<lparr>pid = 7, eos_token_id = Some 2, uses_openai_api = False,
       apply_chat_template = (\<lambda>ms. concat (map content ms)),
       triton_infer = (\<lambda>_. [''Hi'', STOP_TOKEN]), schema_stream_default = True\<rparr>
      init_state
      \<lparr>mi_max_tokens = None, mi_max_new_tokens = None, mi_request_id = None,
       mi_eos_token_id = None, mi_messages = Some [\<lparr>role = ''user'', content = ''2+2?''\<rparr>],
       mi_prompt = Some '''', mi_stream = Some True\<rparr>
   = (Inr (ResultStream [''Hi'', '''']),
      \<lparr>mi_max_tokens = Some 500, mi_max_new_tokens = Some 500, mi_request_id = Some ''71'',
       mi_eos_token_id = Some (Some 2), mi_messages = None,
       mi_prompt = Some ''<|im_start|>assistant'', mi_stream = Some True\<rparr>,
      \<lparr>request_id_counter = 2,
       backend_calls = [StartGrpcStream, Infer
         \<lparr>mi_max_tokens = Some 500, mi_max_new_tokens = Some 500, mi_request_id = Some ''71'',
          mi_eos_token_id = Some (Some 2), mi_messages = None,
          mi_prompt = Some ''<|im_start|>assistant'', mi_stream = Some True\<rparr>]\<rparr>)"
  by (simp add: predict_def Let_def append_assistant_template_def truthy_def dispatch_def
        APPEND_ASSISTANT_TEMPLATE_TO_PROMPT_def APPEND_ASSISTANT_TEMPLATE_TO_PROMPT_STR_def
        init_state_def STOP_TOKEN_def str_nat_7 str_nat_1)

text \<open>
  C10 (amended). With non-empty messages, no \<^verbatim>\<open>prompt\<close> key and a backend that is not
  chat-compatible, \<^verbatim>\<open>predict\<close> passes the validation and raises \<^verbatim>\<open>KeyError('prompt')\<close> at
  the marker-append step, before any backend call. With the \<^verbatim>\<open>prompt\<close> key bound to the
  empty string no \<^verbatim>\<open>KeyError\<close> is raised and the request is submitted with the marker
  alone as its prompt.
\<close>

theorem predict_missing_prompt_KeyError:
  "(mi_prompt mi = None \<and> mi_messages mi = Some ms \<and> ms \<noteq> [] \<and> \<not> uses_openai_api env \<longrightarrow>
      fst (predict env st mi) = Inl (KeyError ''prompt'') \<and>
      backend_calls (snd (snd (predict env st mi))) = backend_calls st) \<and>
   (mi_prompt mi = Some [] \<and> mi_messages mi = Some ms \<and> ms \<noteq> [] \<and> \<not> uses_openai_api env \<longrightarrow>
      (\<forall>k. fst (predict env st mi) \<noteq> Inl (KeyError k)) \<and>
      (\<exists>mi'. backend_calls (snd (snd (predict env st mi))) =
                backend_calls st @ [StartGrpcStream, Infer mi'] \<and>
             mi_prompt mi' = Some APPEND_ASSISTANT_TEMPLATE_TO_PROMPT_STR))"
  by (auto simp add: predict_def Let_def append_assistant_template_def truthy_def dispatch_calls
        dispatch_not_KeyError APPEND_ASSISTANT_TEMPLATE_TO_PROMPT_def split: option.splits)

theorem predict_missing_prompt_KeyError_witness:
  "fst (predict
      \<lparr>pid = 7, eos_token_id = Some 2, uses_openai_api = False,
       apply_chat_template = (\<lambda>ms. concat (map content ms)),
       triton_infer = (\<lambda>_. [''Hi'', STOP_TOKEN]), schema_stream_default = True\<rparr>
      init_state
      \<lparr>mi_max_tokens = None, mi_max_new_tokens = None, mi_request_id = None,
       mi_eos_token_id = None, mi_messages = Some [\<lparr>role = ''user'', content = ''2+2?''\<rparr>],
       mi_prompt = None, mi_stream = None\<rparr>)
     = Inl (KeyError ''prompt'') \<and>
   fst (predict
      \<lparr>pid = 7, eos_token_id = Some 2, uses_openai_api = False,
       apply_chat_template = (\<lambda>ms. concat (map content ms)),
       triton_infer = (\<lambda>_. [''Hi'', STOP_TOKEN]), schema_stream_default = True\<rparr>
      init_state
      \<lparr>mi_max_tokens = None, mi_max_new_tokens = None, mi_request_id = None,
       mi_eos_token_id = None, mi_messages = Some [\<lparr>role = ''user'', content = ''2+2?''\<rparr>],
       mi_prompt = Some '''', mi_stream = None\<rparr>)
     \<noteq> Inl (KeyError ''prompt'')"
proof -
  let ?env = "\<lparr>pid = 7, eos_token_id = Some 2, uses_openai_api = False,
       apply_chat_template = (\<lambda>ms. concat (map content ms)),
       triton_infer = (\<lambda>_. [''Hi'', STOP_TOKEN]), schema_stream_default = True\<rparr>"
  let ?ms = "[\<lparr>role = ''user'', content = ''2+2?''\<rparr>]"
  let ?absent = "\<lparr>mi_max_tokens = None, mi_max_new_tokens = None, mi_request_id = None,
       mi_eos_token_id = None, mi_messages = Some ?ms,
       mi_prompt = None, mi_stream = None\<rparr>"
  let ?empty = "\<lparr>mi_max_tokens = None, mi_max_new_tokens = None, mi_request_id = None,
       mi_eos_token_id = None, mi_messages = Some ?ms,
       mi_prompt = Some '''', mi_stream = None\<rparr>"
  have a: "mi_prompt ?absent = None \<and> mi_messages ?absent = Some ?ms \<and> ?ms \<noteq> [] \<and>
           \<not> uses_openai_api ?env"
    by simp
  have e: "mi_prompt ?empty = Some [] \<and> mi_messages ?empty = Some ?ms \<and> ?ms \<noteq> [] \<and>
           \<not> uses_openai_api ?env"
    by simp
  from a predict_missing_prompt_KeyError [of ?absent ?ms ?env init_state]
  have "fst (predict ?env init_state ?absent) = Inl (KeyError ''prompt'')"
    by blast
  moreover from e predict_missing_prompt_KeyError [of ?empty ?ms ?env init_state]
  have "fst (predict ?env init_state ?empty) \<noteq> Inl (KeyError ''prompt'')"
    by blast
  ultimately show ?thesis by blast
qed

section \<open>Claims about the local server\<close>

text \<open>
  C4 (the code departs from it). The claim: for the same formatted input and generation
  parameters, the concatenated increments of the streaming path equal the text of the
  non-streaming path up to special tokens, both paths generating under the same effective
  token-length budget. For the request
  \<^verbatim>\<open>{"messages": [{"role": "user", "content": "What is 2+2?"}], "context": "", "max_tokens": 10}\<close>
  sent once with \<^verbatim>\<open>stream=True\<close> and once with \<^verbatim>\<open>stream=False\<close>, both paths hand the
  model the same input ids and the same generation arguments (\<^verbatim>\<open>max_length = 10\<close>), but
  the streaming path also passes \<^verbatim>\<open>max_new_tokens = 10\<close> and the non-streaming path does
  not. The first bounds the newly generated tokens by 10, the second bounds prompt plus
  generated tokens by 10, so the two generations stop at different lengths.
\<close>

theorem chatqa_paths_generate_calls:
  "let R = (\<lambda>s. \<lparr>rq_messages = Some [\<lparr>role = ''user'', content = ''What is 2+2?''\<rparr>],
                  rq_context = Some '''', rq_max_tokens = Some (PInt 10),
                  rq_temperature = None, rq_top_p = None, rq_top_k = None,
                  rq_repetition_penalty = None, rq_no_repeat_ngram_size = None,
                  rq_do_sample = None, rq_stream = Some s,
                  rq_formatted_input = None, rq_generate_args = None\<rparr>)
   in \<exists>rq_s rq_n ids args.
        preprocess tok (R True) = Inr rq_s \<and>
        preprocess tok (R False) = Inr rq_n \<and>
        ga_max_length args = PInt 10 \<and>
        chatqa_predict be rq_s =
          Inr (StreamOf (streamer_texts be (model_generate be
            \<lparr>gc_input_ids = ids, gc_generation_args = args,
             gc_return_dict_in_generate = Some True, gc_output_scores = Some True,
             gc_max_new_tokens = Some (PInt 10), gc_streamer = True\<rparr>))) \<and>
        chatqa_predict be rq_n =
          Inr (OutputDict [(''output'', decode be True (model_generate be
            \<lparr>gc_input_ids = ids, gc_generation_args = args,
             gc_return_dict_in_generate = None, gc_output_scores = None,
             gc_max_new_tokens = None, gc_streamer = False\<rparr>))])"
  apply (simp add: Let_def preprocess_def chatqa_predict_def chatqa_stream_def dict_get_def
        stream_generation_kwargs_def predict_generation_kwargs_def build_generate_args_def)
  apply (intro exI conjI)
    prefer 2
    apply (rule refl)
   prefer 2
   apply (rule refl)
  apply simp
  done

text \<open>
  C6 (as stated, refuted). The claim: for a conversation that did not contain the
  instruction before, the formatted result contains it exactly once. The formatted result
  also holds the context, copied as it is: with the single turn
  \<^verbatim>\<open>{"role": "user", "content": "x"}\<close> and the instruction itself as context, the
  conversation did not contain the instruction and the formatted result contains it twice.
\<close>

theorem get_formatted_input_instruction_twice:
  "occurrences INSTRUCTION ''x'' = 0 \<and>
   role \<lparr>role = ''user'', content = ''x''\<rparr> = ''user'' \<and>
   occurrences INSTRUCTION
     (fst (get_formatted_input [\<lparr>role = ''user'', content = ''x''\<rparr>] INSTRUCTION)) = 2"
proof -
  let ?ms = "[\<lparr>role = ''user'', content = ''x''\<rparr>]"
  have clean: "\<forall>m\<in>set ?ms. occurrences INSTRUCTION (content m) = 0"
    by (simp add: occurrences.simps INSTRUCTION_def)
  have user: "\<exists>m\<in>set ?ms. role m = ''user''"
    by simp
  have conv: "occurrences INSTRUCTION (conversation_text (apply_instruction ?ms)) = 1"
    using user clean by (rule conversation_text_once)
  have "occurrences INSTRUCTION
          (SYSTEM @ ''\<newline>\<newline>'' @ INSTRUCTION @ ''\<newline>\<newline>'' @ conversation_text (apply_instruction ?ms))
      = occurrences INSTRUCTION
          (''\<newline>\<newline>'' @ INSTRUCTION @ ''\<newline>\<newline>'' @ conversation_text (apply_instruction ?ms))"
    using P_not_in_SYSTEM by (rule skip_INSTRUCTION)
  also have "\<dots> = occurrences INSTRUCTION
          ((CHR ''P'' # tl INSTRUCTION) @ CHR 0x0A # CHR 0x0A # conversation_text (apply_instruction ?ms))"
    using INSTRUCTION_Cons by (simp add: newline_first_INSTRUCTION)
  also have "\<dots> = 1 + occurrences INSTRUCTION (CHR 0x0A # conversation_text (apply_instruction ?ms))"
    using occurrences_self [of "CHR ''P''" "tl INSTRUCTION" "CHR 0x0A"
        "CHR 0x0A # conversation_text (apply_instruction ?ms)"]
      P_not_in_tl_INSTRUCTION INSTRUCTION_Cons by simp
  also have "\<dots> = 2"
    using conv by (simp add: newline_first_INSTRUCTION)
  finally have "occurrences INSTRUCTION (fst (get_formatted_input ?ms INSTRUCTION)) = 2"
    by (simp add: get_formatted_input_def format_conversation_def Let_def)
  moreover have "occurrences INSTRUCTION ''x'' = 0"
    by (simp add: occurrences.simps INSTRUCTION_def)
  ultimately show ?thesis by simp
qed

text \<open>
  C6 (amended). The turns of the list are separate objects, as in a decoded request. When
  the messages contain a turn with role \<^verbatim>\<open>user\<close>, and \<open>i\<close> is the position of the first
  such turn, one call of \<^verbatim>\<open>get_formatted_input\<close> leaves the message list equal to the
  original one except at position \<open>i\<close>, whose content becomes the instruction, a space,
  and the old content. The result is the preamble, the context and the transcript of the
  rewritten messages. If no turn content contained the instruction before, the transcript
  contains it exactly once; if in addition the context does not contain it, the whole
  formatted result contains it exactly once.
\<close>

theorem get_formatted_input_instruction_once:
  "i < length ms \<Longrightarrow> role (ms ! i) = ''user'' \<Longrightarrow> \<forall>j<i. role (ms ! j) \<noteq> ''user'' \<Longrightarrow>
     snd (get_formatted_input ms ctx) =
       ms[i := (ms ! i)\<lparr>content := INSTRUCTION @ '' '' @ content (ms ! i)\<rparr>] \<and>
     fst (get_formatted_input ms ctx) =
       SYSTEM @ ''\<newline>\<newline>'' @ ctx @ ''\<newline>\<newline>'' @ conversation_text (snd (get_formatted_input ms ctx)) \<and>
     ((\<forall>m\<in>set ms. occurrences INSTRUCTION (content m) = 0) \<longrightarrow>
        occurrences INSTRUCTION (conversation_text (snd (get_formatted_input ms ctx))) = 1 \<and>
        (occurrences INSTRUCTION ctx = 0 \<longrightarrow>
           occurrences INSTRUCTION (fst (get_formatted_input ms ctx)) = 1))"
proof -
  assume i: "i < length ms" and u: "role (ms ! i) = ''user''"
    and first: "\<forall>j<i. role (ms ! j) \<noteq> ''user''"
  have a: "snd (get_formatted_input ms ctx) =
       ms[i := (ms ! i)\<lparr>content := INSTRUCTION @ '' '' @ content (ms ! i)\<rparr>]"
    using apply_instruction_update [OF i u first] by (simp add: get_formatted_input_def Let_def)
  have b: "fst (get_formatted_input ms ctx) =
       SYSTEM @ ''\<newline>\<newline>'' @ ctx @ ''\<newline>\<newline>'' @ conversation_text (snd (get_formatted_input ms ctx))"
    by (simp add: get_formatted_input_def format_conversation_def Let_def)
  have ex: "\<exists>m\<in>set ms. role m = ''user''"
    using i u nth_mem by blast
  have c: "occurrences INSTRUCTION (conversation_text (snd (get_formatted_input ms ctx))) = 1"
    if clean: "\<forall>m\<in>set ms. occurrences INSTRUCTION (content m) = 0"
    using conversation_text_once [OF ex clean] by (simp add: get_formatted_input_def Let_def)
  have d: "occurrences INSTRUCTION (fst (get_formatted_input ms ctx)) = 1"
    if clean: "\<forall>m\<in>set ms. occurrences INSTRUCTION (content m) = 0"
      and cc: "occurrences INSTRUCTION ctx = 0"
    using conversation_text_once [OF ex clean] format_conversation_occurrences [OF cc]
    by (simp add: get_formatted_input_def Let_def)
  from a b c d show ?thesis by blast
qed

theorem get_formatted_input_instruction_once_witness:
  "snd (get_formatted_input
      [\<lparr>role = ''assistant'', content = ''Hi''\<rparr>,
       \<lparr>role = ''user'', content = ''What is 2+2?''\<rparr>,
       \<lparr>role = ''user'', content = ''And 3+3?''\<rparr>] '''')
     = [\<lparr>role = ''assistant'', content = ''Hi''\<rparr>,
        \<lparr>role = ''user'', content = ''Please give a full and complete answer for the question. What is 2+2?''\<rparr>,
        \<lparr>role = ''user'', content = ''And 3+3?''\<rparr>] \<and>
   occurrences INSTRUCTION (fst (get_formatted_input
      [\<lparr>role = ''assistant'', content = ''Hi''\<rparr>,
       \<lparr>role = ''user'', content = ''What is 2+2?''\<rparr>,
       \<lparr>role = ''user'', content = ''And 3+3?''\<rparr>] '''')) = 1"
proof -
  let ?ms = "[\<lparr>role = ''assistant'', content = ''Hi''\<rparr>,
       \<lparr>role = ''user'', content = ''What is 2+2?''\<rparr>,
       \<lparr>role = ''user'', content = ''And 3+3?''\<rparr>]"
  have h1: "1 < length ?ms" by simp
  have h2: "role (?ms ! 1) = ''user''" by simp
  have h3: "\<forall>j<1. role (?ms ! j) \<noteq> ''user''" by simp
  have h4: "\<forall>m\<in>set ?ms. occurrences INSTRUCTION (content m) = 0"
    by (simp add: occurrences.simps INSTRUCTION_def)
  have h5: "occurrences INSTRUCTION '''' = 0"
    by (simp add: occurrences.simps INSTRUCTION_def)
  from get_formatted_input_instruction_once [OF h1 h2 h3, of "''''"] h4 h5
  have "snd (get_formatted_input ?ms '''') =
          ?ms[1 := (?ms ! 1)\<lparr>content := INSTRUCTION @ '' '' @ content (?ms ! 1)\<rparr>]"
    and "occurrences INSTRUCTION (fst (get_formatted_input ?ms '''')) = 1"
    by blast+
  then show ?thesis by (simp add: INSTRUCTION_def)
qed

text \<open>
  C7. In the generation arguments that \<^verbatim>\<open>preprocess\<close> builds, each of the seven sampling
  fields is the value the request binds to its key when the key is present, and the
  default (512, 1.0, 0.95, 40, 1.0, 0, True) when it is absent; \<^verbatim>\<open>max_length\<close> is read from
  the key \<^verbatim>\<open>max_tokens\<close>. \<^verbatim>\<open>use_cache\<close> is true and the termination ids are the tokenizer's
  end-of-sequence id and the id of \<^verbatim>\<open><|eot_id|>\<close>. These are the arguments stored in the
  request whenever \<^verbatim>\<open>preprocess\<close> returns, which it does when \<^verbatim>\<open>messages\<close> and \<^verbatim>\<open>context\<close>
  are present.
\<close>

theorem preprocess_generate_args:
  "ga_max_length (build_generate_args tok rq) =
     (case rq_max_tokens rq of Some v \<Rightarrow> v | None \<Rightarrow> PInt 512) \<and>
   ga_temperature (build_generate_args tok rq) =
     (case rq_temperature rq of Some v \<Rightarrow> v | None \<Rightarrow> PFloat 1.0) \<and>
   ga_top_p (build_generate_args tok rq) =
     (case rq_top_p rq of Some v \<Rightarrow> v | None \<Rightarrow> PFloat 0.95) \<and>
   ga_top_k (build_generate_args tok rq) =
     (case rq_top_k rq of Some v \<Rightarrow> v | None \<Rightarrow> PInt 40) \<and>
   ga_repetition_penalty (build_generate_args tok rq) =
     (case rq_repetition_penalty rq of Some v \<Rightarrow> v | None \<Rightarrow> PFloat 1.0) \<and>
   ga_no_repeat_ngram_size (build_generate_args tok rq) =
     (case rq_no_repeat_ngram_size rq of Some v \<Rightarrow> v | None \<Rightarrow> PInt 0) \<and>
   ga_do_sample (build_generate_args tok rq) =
     (case rq_do_sample rq of Some v \<Rightarrow> v | None \<Rightarrow> PBool True) \<and>
   ga_use_cache (build_generate_args tok rq) = True \<and>
   set (ga_eos_token_id (build_generate_args tok rq)) =
     {tok_eos_token_id tok, convert_tokens_to_ids tok ''<|eot_id|>''} \<and>
   (\<forall>rq'. preprocess tok rq = Inr rq' \<longrightarrow>
      rq_generate_args rq' = Some (build_generate_args tok rq)) \<and>
   (rq_messages rq \<noteq> None \<and> rq_context rq \<noteq> None \<longrightarrow>
      (\<exists>rq'. preprocess tok rq = Inr rq'))"
proof -
  have f1: "ga_max_length (build_generate_args tok rq) =
     (case rq_max_tokens rq of Some v \<Rightarrow> v | None \<Rightarrow> PInt 512)"
    by (simp add: build_generate_args_def dict_get_case MAX_LENGTH_def split: option.splits)
  have f2: "ga_temperature (build_generate_args tok rq) =
     (case rq_temperature rq of Some v \<Rightarrow> v | None \<Rightarrow> PFloat 1.0)"
    by (simp add: build_generate_args_def dict_get_case TEMPERATURE_def split: option.splits)
  have f3: "ga_top_p (build_generate_args tok rq) =
     (case rq_top_p rq of Some v \<Rightarrow> v | None \<Rightarrow> PFloat 0.95)"
    by (simp add: build_generate_args_def dict_get_case TOP_P_def split: option.splits)
  have f4: "ga_top_k (build_generate_args tok rq) =
     (case rq_top_k rq of Some v \<Rightarrow> v | None \<Rightarrow> PInt 40)"
    by (simp add: build_generate_args_def dict_get_case TOP_K_def split: option.splits)
  have f5: "ga_repetition_penalty (build_generate_args tok rq) =
     (case rq_repetition_penalty rq of Some v \<Rightarrow> v | None \<Rightarrow> PFloat 1.0)"
    by (simp add: build_generate_args_def dict_get_case REPETITION_PENALTY_def split: option.splits)
  have f6: "ga_no_repeat_ngram_size (build_generate_args tok rq) =
     (case rq_no_repeat_ngram_size rq of Some v \<Rightarrow> v | None \<Rightarrow> PInt 0)"
    by (simp add: build_generate_args_def dict_get_case NO_REPEAT_NGRAM_SIZE_def split: option.splits)
  have f7: "ga_do_sample (build_generate_args tok rq) =
     (case rq_do_sample rq of Some v \<Rightarrow> v | None \<Rightarrow> PBool True)"
    by (simp add: build_generate_args_def dict_get_case DO_SAMPLE_def split: option.splits)
  have f8: "ga_use_cache (build_generate_args tok rq) = True"
    by (simp add: build_generate_args_def)
  have f9: "set (ga_eos_token_id (build_generate_args tok rq)) =
     {tok_eos_token_id tok, convert_tokens_to_ids tok ''<|eot_id|>''}"
    by (simp add: build_generate_args_def)
  have f10: "\<forall>rq'. preprocess tok rq = Inr rq' \<longrightarrow>
      rq_generate_args rq' = Some (build_generate_args tok rq)"
    by (rule allI, rule impI, rule preprocess_stores_generate_args)
  have f11: "rq_messages rq \<noteq> None \<and> rq_context rq \<noteq> None \<longrightarrow>
      (\<exists>rq'. preprocess tok rq = Inr rq')"
    using preprocess_returns [of rq tok] by blast
  from f1 f2 f3 f4 f5 f6 f7 f8 f9 f10 f11 show ?thesis
    by (intro conjI)
qed

theorem preprocess_generate_args_witness:
  "\<exists>rq'. preprocess
      \<lparr>tok_eos_token_id = Some 128001, tok_pad_token_id = None,
       convert_tokens_to_ids = (\<lambda>t. if t = ''<|eot_id|>'' then Some 128009 else None)\<rparr>
      \<lparr>rq_messages = Some [\<lparr>role = ''user'', content = ''What is 2+2?''\<rparr>],
       rq_context = Some '''', rq_max_tokens = Some (PInt 10),
       rq_temperature = Some (PFloat 0.2), rq_top_p = None, rq_top_k = None,
       rq_repetition_penalty = None, rq_no_repeat_ngram_size = None,
       rq_do_sample = None, rq_stream = None,
       rq_formatted_input = None, rq_generate_args = None\<rparr> = Inr rq' \<and>
     rq_generate_args rq' = Some
       \<lparr>ga_max_length = PInt 10, ga_temperature = PFloat 0.2, ga_top_p = PFloat 0.95,
        ga_top_k = PInt 40, ga_repetition_penalty = PFloat 1.0,
        ga_no_repeat_ngram_size = PInt 0, ga_do_sample = PBool True, ga_use_cache = True,
        ga_eos_token_id = [Some 128001, Some 128009], ga_pad_token_id = None\<rparr>"
proof -
  let ?tok = "\<lparr>tok_eos_token_id = Some 128001, tok_pad_token_id = None,
       convert_tokens_to_ids = (\<lambda>t. if t = ''<|eot_id|>'' then Some 128009 else None)\<rparr>"
  let ?rq = "\<lparr>rq_messages = Some [\<lparr>role = ''user'', content = ''What is 2+2?''\<rparr>],
       rq_context = Some '''', rq_max_tokens = Some (PInt 10),
       rq_temperature = Some (PFloat 0.2), rq_top_p = None, rq_top_k = None,
       rq_repetition_penalty = None, rq_no_repeat_ngram_size = None,
       rq_do_sample = None, rq_stream = None,
       rq_formatted_input = None, rq_generate_args = None\<rparr>"
  have p: "rq_messages ?rq \<noteq> None \<and> rq_context ?rq \<noteq> None" by simp
  note t = preprocess_generate_args [of ?tok ?rq]
  from t p obtain rq' where r: "preprocess ?tok ?rq = Inr rq'" by blast
  with t have g: "rq_generate_args rq' = Some (build_generate_args ?tok ?rq)" by blast
  have "build_generate_args ?tok ?rq =
       \<lparr>ga_max_length = PInt 10, ga_temperature = PFloat 0.2, ga_top_p = PFloat 0.95,
        ga_top_k = PInt 40, ga_repetition_penalty = PFloat 1.0,
        ga_no_repeat_ngram_size = PInt 0, ga_do_sample = PBool True, ga_use_cache = True,
        ga_eos_token_id = [Some 128001, Some 128009], ga_pad_token_id = None\<rparr>"
    by (simp add: build_generate_args_def dict_get_def
        MAX_LENGTH_def TEMPERATURE_def TOP_P_def TOP_K_def REPETITION_PENALTY_def
        NO_REPEAT_NGRAM_SIZE_def DO_SAMPLE_def)
  with r g show ?thesis by simp
qed

end
